theory Spec2Isabelle
  imports Main "HOL-Library.Word"
begin

text \<open>
  The merge coordinator of \<^verbatim>\<open>src/team/merge-coordinator.ts\<close>: \<^verbatim>\<open>checkMergeConflicts\<close>,
  \<^verbatim>\<open>mergeWorkerBranch\<close> and \<^verbatim>\<open>mergeAllWorkerBranches\<close>. Every call of \<^verbatim>\<open>execFileSync\<close> is
  a step of a backend that the functions take as a parameter; an exception is the value
  \<open>Inl\<close> of a result, and \<^verbatim>\<open>try\<close>/\<^verbatim>\<open>catch\<close> is a combinator on results; the command lines
  run are recorded in the world, so that a theorem can say which commands a call ran.
\<close>

section \<open>Strings of the source language\<close>

text \<open>
  A string of the program is a sequence of 16-bit code units. The literals of the source
  (\<^verbatim>\<open>'git'\<close>, \<^verbatim>\<open>'merge-base'\<close>, ...) are ASCII and are written \<open>js ''git''\<close>.
\<close>

type_synonym unit16 = "16 word"
type_synonym jsstring = "unit16 list"

definition js :: "string \<Rightarrow> jsstring" where
  "js s = map of_char s"

definition NL :: unit16 where
  "NL = 0x0A"

definition SLASH :: unit16 where
  "SLASH = 0x2F"

text \<open>
  The code units that \<^verbatim>\<open>String.prototype.trim\<close> strips: the white space and the line
  terminators of the language (TAB, VT, FF, SP, NBSP, ZWNBSP, the space separators, LF, CR,
  LS, PS).
\<close>

definition isWhiteSpace :: "unit16 \<Rightarrow> bool" where
  "isWhiteSpace c \<longleftrightarrow>
     c \<in> set [0x0009, 0x000A, 0x000B, 0x000C, 0x000D, 0x0020, 0x00A0, 0x1680,
              0x2000, 0x2001, 0x2002, 0x2003, 0x2004, 0x2005, 0x2006, 0x2007,
              0x2008, 0x2009, 0x200A, 0x2028, 0x2029, 0x202F, 0x205F, 0x3000, 0xFEFF]"

text \<open>\<^verbatim>\<open>s.trim()\<close>\<close>

definition js_trim :: "jsstring \<Rightarrow> jsstring" where
  "js_trim s = rev (dropWhile isWhiteSpace (rev (dropWhile isWhiteSpace s)))"

text \<open>
  \<^verbatim>\<open>s.split(sep)\<close> for a separator of one code unit: the pieces between the separators,
  empty pieces kept; the empty string splits into one empty piece. A code unit that is not
  the separator joins the first piece of the rest (the rest always has one, so the case of
  no piece is never taken).
\<close>

fun js_split :: "unit16 \<Rightarrow> jsstring \<Rightarrow> jsstring list" where
  "js_split sep [] = [[]]"
| "js_split sep (c # cs) =
     (if c = sep then [] # js_split sep cs
      else (case js_split sep cs of [] \<Rightarrow> [[c]] | p # ps \<Rightarrow> (c # p) # ps))"

text \<open>\<^verbatim>\<open>xs.pop()\<close> as a value: the last element, \<^verbatim>\<open>undefined\<close> on the empty array.\<close>

definition js_pop :: "'a list \<Rightarrow> 'a option" where
  "js_pop xs = (if xs = [] then None else Some (last xs))"

text \<open>\<^verbatim>\<open>a || b\<close> where \<open>a\<close> is a string or \<^verbatim>\<open>undefined\<close>: both \<^verbatim>\<open>undefined\<close> and \<^verbatim>\<open>''\<close> are falsy.\<close>

definition truthy :: "jsstring option \<Rightarrow> bool" where
  "truthy a = (case a of None \<Rightarrow> False | Some s \<Rightarrow> s \<noteq> [])"

section \<open>The version-control backend and the effects of a run\<close>

text \<open>
  \<^verbatim>\<open>execFileSync(file, args, {cwd})\<close> runs a child process against the repository. The
  process is a parameter of the model: from the repository state \<open>'s\<close> it gives the new
  state and either the text of its standard output or \<open>None\<close> when it fails (a non-zero
  exit status or a spawn error, on which \<^verbatim>\<open>execFileSync\<close> throws).
\<close>

type_synonym 's backend = "jsstring \<Rightarrow> jsstring list \<Rightarrow> jsstring \<Rightarrow> 's \<Rightarrow> jsstring option \<times> 's"

text \<open>
  The world of a run: the repository, and the command lines executed so far, oldest first
  (\<open>file # args\<close> for each call).
\<close>

record 's world =
  repo :: 's
  calls :: "jsstring list list"

datatype error = ExecError "jsstring list" | RegistryError

type_synonym ('s, 'a) io = "'s world \<Rightarrow> (error + 'a) \<times> 's world"

definition return_io :: "'a \<Rightarrow> ('s, 'a) io" where
  "return_io x w = (Inr x, w)"

definition bind_io :: "('s, 'a) io \<Rightarrow> ('a \<Rightarrow> ('s, 'b) io) \<Rightarrow> ('s, 'b) io" where
  "bind_io m f w = (case m w of (Inl e, w') \<Rightarrow> (Inl e, w') | (Inr x, w') \<Rightarrow> f x w')"

text \<open>\<^verbatim>\<open>try { m } catch (e) { h(e) }\<close>\<close>

definition try_catch :: "('s, 'a) io \<Rightarrow> (error \<Rightarrow> ('s, 'a) io) \<Rightarrow> ('s, 'a) io" where
  "try_catch m h w = (case m w of (Inl e, w') \<Rightarrow> h e w' | (Inr x, w') \<Rightarrow> (Inr x, w'))"

definition execFileSync :: "'s backend \<Rightarrow> jsstring \<Rightarrow> jsstring list \<Rightarrow> jsstring \<Rightarrow> ('s, jsstring) io" where
  "execFileSync be file args cwd w =
     (case be file args cwd (repo w) of
        (out, s') \<Rightarrow>
          (let w' = \<lparr>repo = s', calls = calls w @ [file # args]\<rparr>
           in case out of
                None \<Rightarrow> (Inl (ExecError (file # args)), w')
              | Some stdout \<Rightarrow> (Inr stdout, w')))"

text \<open>The calls of the program all run \<^verbatim>\<open>git\<close>.\<close>

abbreviation git :: "'s backend \<Rightarrow> jsstring list \<Rightarrow> jsstring \<Rightarrow> ('s, jsstring) io" where
  "git be args cwd \<equiv> execFileSync be (js ''git'') args cwd"

section \<open>merge-coordinator.ts\<close>

record MergeResult =
  workerName :: jsstring
  branch :: jsstring
  success :: bool
  conflicts :: "jsstring list"
  mergeCommit :: "jsstring option"

definition checkMergeConflicts ::
  "'s backend \<Rightarrow> jsstring \<Rightarrow> jsstring \<Rightarrow> jsstring \<Rightarrow> ('s, jsstring list) io" where
  "checkMergeConflicts be workerBranch baseBranch repoRoot =
     try_catch
       (bind_io (execFileSync be (js ''git'') [js ''merge-base'', baseBranch, workerBranch] repoRoot)
          (\<lambda>out0. let mergeBase = js_trim out0 in
       bind_io (execFileSync be (js ''git'') [js ''diff'', js ''--name-only'', mergeBase, baseBranch] repoRoot)
          (\<lambda>out1. let baseDiff = js_trim out1 in
       bind_io (execFileSync be (js ''git'') [js ''diff'', js ''--name-only'', mergeBase, workerBranch] repoRoot)
          (\<lambda>out2. let workerDiff = js_trim out2 in
       if baseDiff = [] \<or> workerDiff = [] then return_io []
       else
         (let baseFiles = set (filter (\<lambda>f. f \<noteq> []) (js_split NL baseDiff));
              workerFiles = filter (\<lambda>f. f \<noteq> []) (js_split NL workerDiff)
          in return_io (filter (\<lambda>f. f \<in> baseFiles) workerFiles))))))
       (\<lambda>_. return_io [])"

definition mergeWorkerBranch ::
  "'s backend \<Rightarrow> jsstring \<Rightarrow> jsstring \<Rightarrow> jsstring \<Rightarrow> ('s, MergeResult) io" where
  "mergeWorkerBranch be workerBranch baseBranch repoRoot =
     (let popped = js_pop (js_split SLASH workerBranch);
          workerName = (if truthy popped then the popped else workerBranch)
      in
      try_catch
        (bind_io (execFileSync be (js ''git'') [js ''checkout'', baseBranch] repoRoot)
           (\<lambda>_.
         bind_io (execFileSync be (js ''git'')
                    [js ''merge'', js ''--no-ff'', js ''-m'',
                     js ''Merge '' @ workerBranch @ js '' into '' @ baseBranch, workerBranch] repoRoot)
           (\<lambda>_.
         bind_io (execFileSync be (js ''git'') [js ''rev-parse'', js ''HEAD''] repoRoot)
           (\<lambda>out. let mergeCommit = js_trim out in
         return_io \<lparr>workerName = workerName, branch = workerBranch, success = True,
                    conflicts = [], mergeCommit = Some mergeCommit\<rparr>))))
        (\<lambda>err.
         bind_io (try_catch
                    (bind_io (execFileSync be (js ''git'') [js ''merge'', js ''--abort''] repoRoot)
                       (\<lambda>_. return_io ()))
                    (\<lambda>_. return_io ()))
           (\<lambda>_.
         bind_io (checkMergeConflicts be workerBranch baseBranch repoRoot)
           (\<lambda>conflicts.
         return_io \<lparr>workerName = workerName, branch = workerBranch, success = False,
                    conflicts = conflicts, mergeCommit = None\<rparr>))))"

text \<open>
  Modelled from the spec: the entries of the worktree registry, whose declaration lies in
  \<^verbatim>\<open>git-worktree.ts\<close>, are \<^verbatim>\<open>{ branch: string, workerName: string, path: string }\<close>.
\<close>

record WorktreeInfo =
  wt_path :: jsstring
  wt_branch :: jsstring
  wt_workerName :: jsstring

text \<open>
  The registry \<^verbatim>\<open>listTeamWorktrees(teamName, repoRoot)\<close> is a parameter: it reads the
  repository and gives the ordered listing, or throws.
\<close>

type_synonym 's registry = "jsstring \<Rightarrow> jsstring \<Rightarrow> 's \<Rightarrow> error + WorktreeInfo list"

text \<open>
  The loop of \<^verbatim>\<open>mergeAllWorkerBranches\<close>: \<open>results\<close> is the array built so far, the list is
  what remains to iterate.
\<close>

fun mergeLoop ::
  "'s backend \<Rightarrow> jsstring \<Rightarrow> jsstring \<Rightarrow> WorktreeInfo list \<Rightarrow> MergeResult list \<Rightarrow> ('s, MergeResult list) io" where
  "mergeLoop be base repoRoot [] results w = (Inr results, w)"
| "mergeLoop be base repoRoot (wt # wts) results w =
     (case mergeWorkerBranch be (wt_branch wt) base repoRoot w of
        (Inl e, w') \<Rightarrow> (Inl e, w')
      | (Inr result, w') \<Rightarrow>
          (let results' = results @ [result]
           in if \<not> success result then (Inr results', w')
              else mergeLoop be base repoRoot wts results' w'))"

text \<open>
  The base branch of a batch (\<^verbatim>\<open>const base = baseBranch || execFileSync(...).trim()\<close>): the
  argument when it is truthy, else the name of the branch checked out now.
\<close>

definition resolveBase :: "'s backend \<Rightarrow> jsstring option \<Rightarrow> jsstring \<Rightarrow> ('s, jsstring) io" where
  "resolveBase be baseBranch repoRoot =
     (if truthy baseBranch then return_io (the baseBranch)
      else bind_io (execFileSync be (js ''git'')
                      [js ''rev-parse'', js ''--abbrev-ref'', js ''HEAD''] repoRoot)
             (\<lambda>out. return_io (js_trim out)))"

definition mergeAllWorkerBranches ::
  "'s backend \<Rightarrow> 's registry \<Rightarrow> jsstring \<Rightarrow> jsstring \<Rightarrow> jsstring option \<Rightarrow> ('s, MergeResult list) io" where
  "mergeAllWorkerBranches be listTeamWorktrees teamName repoRoot baseBranch w =
     (case listTeamWorktrees teamName repoRoot (repo w) of
        Inl e \<Rightarrow> (Inl e, w)
      | Inr worktrees \<Rightarrow>
          if length worktrees = 0 then (Inr [], w)
          else
            bind_io (resolveBase be baseBranch repoRoot)
              (\<lambda>base. mergeLoop be base repoRoot worktrees [])
              w)"

section \<open>Notions of the specification\<close>

text \<open>
  What \<^verbatim>\<open>git diff --name-only\<close> prints for a list of changed paths: each path on a line of
  its own.
\<close>

definition printNames :: "jsstring list \<Rightarrow> jsstring" where
  "printNames ps = concat (map (\<lambda>p. p @ [NL]) ps)"

text \<open>
  The lists of paths that the text read back gives again: no path is empty or holds a line
  feed, the first path does not begin with white space and the last does not end with it.
\<close>

definition plainPaths :: "jsstring list \<Rightarrow> bool" where
  "plainPaths ps \<longleftrightarrow>
     (\<forall>p\<in>set ps. p \<noteq> [] \<and> NL \<notin> set p)
     \<and> (ps \<noteq> [] \<longrightarrow> \<not> isWhiteSpace (hd (hd ps)) \<and> \<not> isWhiteSpace (last (last ps)))"

text \<open>The ordered intersection, order taken from the worker side.\<close>

definition orderedIntersection :: "jsstring list \<Rightarrow> jsstring list \<Rightarrow> jsstring list" where
  "orderedIntersection baseChanged workerChanged = filter (\<lambda>f. f \<in> set baseChanged) workerChanged"

text \<open>The substring after the last separator; the whole string when it has no separator.\<close>

definition afterLast :: "unit16 \<Rightarrow> jsstring \<Rightarrow> jsstring" where
  "afterLast sep s = rev (takeWhile (\<lambda>c. c \<noteq> sep) (rev s))"

text \<open>A sequence of results truncated at, and including, its first failure.\<close>

definition truncateAtFailure :: "MergeResult list \<Rightarrow> MergeResult list" where
  "truncateAtFailure rs = takeWhile success rs @ take 1 (dropWhile success rs)"

text \<open>Merging the branches one after the other, each from the world the previous merge left.\<close>

fun mergeEach :: "'s backend \<Rightarrow> jsstring \<Rightarrow> jsstring \<Rightarrow> jsstring list \<Rightarrow> ('s, MergeResult list) io" where
  "mergeEach be base repoRoot [] = return_io []"
| "mergeEach be base repoRoot (b # bs) =
     bind_io (mergeWorkerBranch be b base repoRoot)
       (\<lambda>r. bind_io (mergeEach be base repoRoot bs) (\<lambda>rs. return_io (r # rs)))"

text \<open>
  The command lines that only read the repository (\<^verbatim>\<open>git merge-base a b\<close> and
  \<^verbatim>\<open>git diff --name-only a b\<close>), and those that change the branch checked out or the
  working tree (\<^verbatim>\<open>git checkout\<close>, \<^verbatim>\<open>git merge\<close> with any arguments, so also
  \<^verbatim>\<open>git merge --abort\<close>).
\<close>

definition readOnlyCall :: "jsstring list \<Rightarrow> bool" where
  "readOnlyCall c \<longleftrightarrow>
     length c = 4 \<and> take 2 c = [js ''git'', js ''merge-base'']
     \<or> length c = 5 \<and> take 3 c = [js ''git'', js ''diff'', js ''--name-only'']"

definition mutatingCall :: "jsstring list \<Rightarrow> bool" where
  "mutatingCall c \<longleftrightarrow>
     take 2 c = [js ''git'', js ''checkout''] \<or> take 2 c = [js ''git'', js ''merge'']"

text \<open>
  The contract of the backend for the current commit id (section 6 of the specification):
  when \<^verbatim>\<open>git rev-parse HEAD\<close> succeeds it prints a commit id, so a text that is not blank.
\<close>

definition printsCommitId :: "'s backend \<Rightarrow> bool" where
  "printsCommitId be \<longleftrightarrow>
     (\<forall>cwd s out s'. be (js ''git'') [js ''rev-parse'', js ''HEAD''] cwd s = (Some out, s')
        \<longrightarrow> (\<exists>c\<in>set out. \<not> isWhiteSpace c))"

text \<open>
  The worker name that \<^verbatim>\<open>mergeWorkerBranch\<close> computes from a branch, and the arguments of
  its merge command.
\<close>

abbreviation workerNameOf :: "jsstring \<Rightarrow> jsstring" where
  "workerNameOf wb \<equiv>
     (if truthy (js_pop (js_split SLASH wb)) then the (js_pop (js_split SLASH wb)) else wb)"

abbreviation mergeArgs :: "jsstring \<Rightarrow> jsstring \<Rightarrow> jsstring list" where
  "mergeArgs wb bb \<equiv>
     [js ''merge'', js ''--no-ff'', js ''-m'', js ''Merge '' @ wb @ js '' into '' @ bb, wb]"

section \<open>Sample backends\<close>

text \<open>The world before any command has run.\<close>

definition fresh :: "'s \<Rightarrow> 's world" where
  "fresh s = \<lparr>repo = s, calls = []\<rparr>"

text \<open>
  A repository in which \<open>main\<close> changed \<^verbatim>\<open>README.md\<close>, the branch \<open>team/w2\<close> changed
  \<^verbatim>\<open>README.md\<close> and \<^verbatim>\<open>src/x.ts\<close> and so fails to merge, the branch \<open>team/w3\<close> changed
  \<^verbatim>\<open>src/y.ts\<close>, the branch \<open>missing\<close> cannot be checked out, it has no common
  ancestor either, and no merge is ever left in progress (so that \<^verbatim>\<open>merge --abort\<close> fails). The
  state is the list of the branches merged so far, newest first.
\<close>

fun demo_git :: "jsstring list backend" where
  "demo_git file [a, b] cwd s =
     (if a = js ''checkout'' then (if b = js ''missing'' then (None, s) else (Some [], s))
      else if a = js ''rev-parse'' \<and> b = js ''HEAD'' then (Some (js ''c0ffee'' @ [NL]), s)
      else (None, s))"
| "demo_git file [a, b, c] cwd s =
     (if a = js ''merge-base'' then
        (if b = js ''missing'' \<or> c = js ''missing'' then (None, s)
         else (Some (js ''abc123'' @ [NL]), s))
      else if a = js ''rev-parse'' \<and> b = js ''--abbrev-ref'' \<and> c = js ''HEAD''
        then (Some (js ''main'' @ [NL]), s)
      else (None, s))"
| "demo_git file [a, b, c, d] cwd s =
     (if a = js ''diff'' \<and> b = js ''--name-only'' then
        (if d = js ''main'' then (Some (js ''README.md'' @ [NL]), s)
         else if d = js ''team/w2'' then (Some (js ''README.md'' @ [NL] @ js ''src/x.ts'' @ [NL]), s)
         else if d = js ''team/w3'' then (Some (js ''src/y.ts'' @ [NL]), s)
         else (Some [], s))
      else (None, s))"
| "demo_git file [a, b, c, d, e] cwd s =
     (if a = js ''merge'' \<and> b = js ''--no-ff'' \<and> c = js ''-m'' then
        (if e = js ''team/w2'' then (None, s) else (Some [], e # s))
      else (None, s))"
| "demo_git file args cwd s = (None, s)"

text \<open>A registry with the team \<open>alpha\<close> of three workers, the team \<open>beta\<close> of two, and no other.\<close>

definition demo_registry :: "jsstring list registry" where
  "demo_registry teamName repoRoot s =
     (if teamName = js ''alpha'' then
        Inr [\<lparr>wt_path = js ''/wt/w1'', wt_branch = js ''team/w1'', wt_workerName = js ''w1''\<rparr>,
             \<lparr>wt_path = js ''/wt/w2'', wt_branch = js ''team/w2'', wt_workerName = js ''w2''\<rparr>,
             \<lparr>wt_path = js ''/wt/w3'', wt_branch = js ''team/w3'', wt_workerName = js ''w3''\<rparr>]
      else if teamName = js ''beta'' then
        Inr [\<lparr>wt_path = js ''/wt/w1'', wt_branch = js ''team/w1'', wt_workerName = js ''w1''\<rparr>,
             \<lparr>wt_path = js ''/wt/w3'', wt_branch = js ''team/w3'', wt_workerName = js ''w3''\<rparr>]
      else Inr [])"

text \<open>
  A repository in which \<open>main\<close> changed the one file named \<^verbatim>\<open>" y"\<close> (a space, then \<open>y\<close>)
  and every other branch changed the files \<open>a\<close> and \<open>y\<close>.
\<close>

definition space_git :: "unit backend" where
  "space_git file args cwd s =
     (if take 2 args = [js ''diff'', js ''--name-only''] then
        (if last args = js ''main'' then (Some (printNames [js '' y'']), s)
         else (Some (printNames [js ''a'', js ''y'']), s))
      else (Some (js ''abc123'' @ [NL]), s))"

text \<open>A backend whose every command fails, as in a directory that is no repository.\<close>

definition dead_git :: "'s backend" where
  "dead_git file args cwd s = (None, s)"

text \<open>A backend whose every command succeeds and prints nothing.\<close>

definition blank_git :: "unit backend" where
  "blank_git file args cwd s = (Some [], s)"

text \<open>A backend in which only the resolution of \<open>HEAD\<close> fails.\<close>

definition headless_git :: "unit backend" where
  "headless_git file args cwd s =
     (if args = [js ''rev-parse'', js ''HEAD''] then (None, s) else (Some [], s))"

section \<open>Sequencing, handlers and the calls of a run\<close>

lemma io_cases:
  obtains (ok) x w' where "m w = (Inr x, w')" | (err) e w' where "m w = (Inl e, w')"
  by (cases "m w"; case_tac a) auto

lemma execFileSync_calls: "calls (snd (execFileSync be file args cwd w)) = calls w @ [file # args]"
  by (simp add: execFileSync_def Let_def split: prod.splits option.splits)

lemma execFileSync_repo: "repo (snd (execFileSync be file args cwd w)) = snd (be file args cwd (repo w))"
  by (simp add: execFileSync_def Let_def split: prod.splits option.splits)

lemma execFileSync_Inr:
  "execFileSync be file args cwd w = (Inr out, w') \<Longrightarrow> \<exists>s'. be file args cwd (repo w) = (Some out, s')"
  by (auto simp: execFileSync_def Let_def split: prod.splits option.splits)

lemma git_step:
  assumes "git be args root v = (r, w')"
  shows "calls w' = calls v @ [js ''git'' # args]"
    and "snd (be (js ''git'') args root (repo v)) = repo v \<Longrightarrow> repo w' = repo v"
  using execFileSync_calls[of be "js ''git''" args root v]
        execFileSync_repo[of be "js ''git''" args root v] assms by simp_all

section \<open>Splitting and trimming\<close>

lemma js_split_not_Nil: "js_split sep s \<noteq> []"
  by (induction s) (auto split: list.splits)

lemma js_split_no_sep: "sep \<notin> set s \<Longrightarrow> js_split sep s = [s]"
  by (induction s) auto

lemma js_split_sep: "sep \<in> set s \<Longrightarrow> tl (js_split sep s) \<noteq> []"
  by (induction s) (auto simp: js_split_not_Nil split: list.splits)

lemma afterLast_Cons:
  "afterLast sep (c # cs) =
     (if sep \<in> set cs then afterLast sep cs else if c = sep then cs else c # cs)"
proof (cases "sep \<in> set cs")
  case True
  then have "takeWhile (\<lambda>c. c \<noteq> sep) (rev cs @ [c]) = takeWhile (\<lambda>c. c \<noteq> sep) (rev cs)"
    by (intro takeWhile_append1[of sep]) auto
  with True show ?thesis by (simp add: afterLast_def)
next
  case False
  then have "takeWhile (\<lambda>c. c \<noteq> sep) (rev cs @ [c]) = rev cs @ takeWhile (\<lambda>c. c \<noteq> sep) [c]"
    by (intro takeWhile_append2) auto
  with False show ?thesis by (simp add: afterLast_def)
qed

lemma last_js_split: "last (js_split sep s) = afterLast sep s"
proof (induction s)
  case Nil
  show ?case by (simp add: afterLast_def)
next
  case (Cons c cs)
  show ?case
  proof (cases "sep \<in> set cs")
    case True
    from js_split_sep[OF True] obtain p q ps where ps: "js_split sep cs = p # q # ps"
      by (cases "js_split sep cs"; cases "tl (js_split sep cs)") auto
    with True Cons show ?thesis by (simp add: afterLast_Cons)
  next
    case False
    then show ?thesis by (simp add: afterLast_Cons js_split_no_sep)
  qed
qed

lemma afterLast_no_sep:
  assumes "sep \<notin> set s"
  shows "afterLast sep s = s"
proof -
  have "takeWhile (\<lambda>c. c \<noteq> sep) (rev s) = rev s"
    using assms by (intro takeWhile_eq_all_conv[THEN iffD2]) auto
  then show ?thesis unfolding afterLast_def by (simp only: rev_rev_ident)
qed

lemma js_trim_not_Nil_iff: "js_trim s \<noteq> [] \<longleftrightarrow> (\<exists>c\<in>set s. \<not> isWhiteSpace c)"
proof -
  have "js_trim s \<noteq> [] \<longleftrightarrow> (\<exists>c\<in>set (dropWhile isWhiteSpace s). \<not> isWhiteSpace c)"
    by (simp add: js_trim_def)
  also have "\<dots> \<longleftrightarrow> (\<exists>c\<in>set s. \<not> isWhiteSpace c)"
  proof
    assume "\<exists>c\<in>set (dropWhile isWhiteSpace s). \<not> isWhiteSpace c"
    then show "\<exists>c\<in>set s. \<not> isWhiteSpace c" by (meson set_dropWhileD)
  next
    assume "\<exists>c\<in>set s. \<not> isWhiteSpace c"
    then have "dropWhile isWhiteSpace s \<noteq> []" by simp
    then have "\<not> isWhiteSpace (hd (dropWhile isWhiteSpace s))" by (rule hd_dropWhile)
    moreover have "hd (dropWhile isWhiteSpace s) \<in> set (dropWhile isWhiteSpace s)"
      using \<open>dropWhile isWhiteSpace s \<noteq> []\<close> by simp
    ultimately show "\<exists>c\<in>set (dropWhile isWhiteSpace s). \<not> isWhiteSpace c" by blast
  qed
  finally show ?thesis .
qed

lemma isWhiteSpace_NL: "isWhiteSpace NL"
  by (simp add: isWhiteSpace_def NL_def)

lemma js_split_line: "NL \<notin> set p \<Longrightarrow> js_split NL (p @ NL # rest) = p # js_split NL rest"
  by (induction p) auto

lemma joined_lines:
  assumes "ps \<noteq> []"
  shows "printNames ps = foldr (\<lambda>p acc. p @ NL # acc) (butlast ps) (last ps) @ [NL]"
  using assms
proof (induction ps)
  case Nil
  then show ?case by simp
next
  case (Cons p ps)
  then show ?case by (cases "ps = []") (simp_all add: printNames_def)
qed

lemma js_split_joined:
  assumes "\<forall>p\<in>set ps. NL \<notin> set p" "ps \<noteq> []"
  shows "js_split NL (foldr (\<lambda>p acc. p @ NL # acc) (butlast ps) (last ps)) = ps"
  using assms
proof (induction ps)
  case Nil
  then show ?case by simp
next
  case (Cons p ps)
  then show ?case
    by (cases "ps = []") (simp_all add: js_split_line js_split_no_sep)
qed

lemma js_trim_edges:
  assumes "s \<noteq> []" "\<not> isWhiteSpace (hd s)" "\<not> isWhiteSpace (last s)"
  shows "js_trim (s @ [NL]) = s"
proof -
  from assms have 1: "dropWhile isWhiteSpace (s @ [NL]) = s @ [NL]"
    by (cases s) simp_all
  from assms have "dropWhile isWhiteSpace (rev s) = rev s"
    by (simp add: dropWhile_eq_self_iff hd_rev)
  then have 2: "dropWhile isWhiteSpace (rev (s @ [NL])) = rev s"
    by (simp add: isWhiteSpace_NL)
  show ?thesis unfolding js_trim_def 1 2 by simp
qed

lemma joined_edges:
  assumes "ps \<noteq> []" "\<forall>p\<in>set ps. p \<noteq> []"
  shows "foldr (\<lambda>p acc. p @ NL # acc) (butlast ps) (last ps) \<noteq> []"
    and "hd (foldr (\<lambda>p acc. p @ NL # acc) (butlast ps) (last ps)) = hd (hd ps)"
    and "last (foldr (\<lambda>p acc. p @ NL # acc) (butlast ps) (last ps)) = last (last ps)"
  using assms
proof (induction ps)
  case Nil
  { case 1 then show ?case by simp
  next case 2 then show ?case by simp
  next case 3 then show ?case by simp }
next
  case (Cons p ps)
  { case 1 with Cons show ?case by (cases "ps = []") simp_all
  next case 2 with Cons show ?case by (cases "ps = []") simp_all
  next case 3 with Cons show ?case by (cases "ps = []") simp_all }
qed

lemma parse_printNames:
  assumes "plainPaths ps"
  shows "(js_trim (printNames ps) = [] \<longleftrightarrow> ps = [])
       \<and> filter (\<lambda>f. f \<noteq> []) (js_split NL (js_trim (printNames ps))) = ps"
proof (cases "ps = []")
  case True
  then show ?thesis by (simp add: printNames_def js_trim_def)
next
  case False
  let ?s = "foldr (\<lambda>p acc. p @ NL # acc) (butlast ps) (last ps)"
  from assms False have ne: "\<forall>p\<in>set ps. p \<noteq> []" and nl: "\<forall>p\<in>set ps. NL \<notin> set p"
    and e: "\<not> isWhiteSpace (hd (hd ps))" "\<not> isWhiteSpace (last (last ps))"
    by (auto simp: plainPaths_def)
  have t: "js_trim (printNames ps) = ?s"
    unfolding joined_lines[OF False]
    using joined_edges[OF False ne] e by (intro js_trim_edges) simp_all
  have "filter (\<lambda>f. f \<noteq> []) ps = ps" using ne by (simp add: filter_id_conv)
  with t js_split_joined[OF nl False] joined_edges(1)[OF False ne] False
  show ?thesis by simp
qed

lemma workerNameOf_afterLast:
  "workerNameOf wb = (if afterLast SLASH wb = [] then wb else afterLast SLASH wb)"
  by (simp add: truthy_def js_pop_def js_split_not_Nil last_js_split)

section \<open>Runs on the sample backends\<close>

lemmas run_defs =
  execFileSync_def bind_io_def try_catch_def return_io_def Let_def fresh_def
  js_def NL_def SLASH_def js_trim_def isWhiteSpace_def js_pop_def truthy_def

lemma demo_merge_w1:
  "mergeWorkerBranch demo_git (js ''team/w1'') (js ''main'') (js ''/repo'') (fresh [])
     = (Inr \<lparr>workerName = js ''w1'', branch = js ''team/w1'', success = True,
              conflicts = [], mergeCommit = Some (js ''c0ffee'')\<rparr>,
        \<lparr>repo = [js ''team/w1''],
         calls = [[js ''git'', js ''checkout'', js ''main''],
                  [js ''git'', js ''merge'', js ''--no-ff'', js ''-m'',
                   js ''Merge team/w1 into main'', js ''team/w1''],
                  [js ''git'', js ''rev-parse'', js ''HEAD'']]\<rparr>)"
  by (simp add: mergeWorkerBranch_def run_defs)

lemma demo_merge_w2:
  "mergeWorkerBranch demo_git (js ''team/w2'') (js ''main'') (js ''/repo'') (fresh [])
     = (Inr \<lparr>workerName = js ''w2'', branch = js ''team/w2'', success = False,
              conflicts = [js ''README.md''], mergeCommit = None\<rparr>,
        \<lparr>repo = [],
         calls = [[js ''git'', js ''checkout'', js ''main''],
                  [js ''git'', js ''merge'', js ''--no-ff'', js ''-m'',
                   js ''Merge team/w2 into main'', js ''team/w2''],
                  [js ''git'', js ''merge'', js ''--abort''],
                  [js ''git'', js ''merge-base'', js ''main'', js ''team/w2''],
                  [js ''git'', js ''diff'', js ''--name-only'', js ''abc123'', js ''main''],
                  [js ''git'', js ''diff'', js ''--name-only'', js ''abc123'', js ''team/w2'']]\<rparr>)"
  by (simp add: mergeWorkerBranch_def checkMergeConflicts_def run_defs)

lemma demo_git_queries_read_only:
  "\<forall>file args cwd s. readOnlyCall (file # args) \<longrightarrow> snd (demo_git file args cwd s) = s"
proof (intro allI impI)
  fix f args cwd and s :: "jsstring list"
  assume "readOnlyCall (f # args)"
  then have "length args = 3 \<or> length args = 4"
    by (auto simp: readOnlyCall_def)
  then consider a b c where "args = [a, b, c]" | a b c d where "args = [a, b, c, d]"
    by (auto simp: length_Suc_conv numeral_3_eq_3 numeral_Bit0 numeral_eq_Suc)
  then show "snd (demo_git f args cwd s) = s"
    by cases auto
qed

lemma demo_git_printsCommitId: "printsCommitId demo_git"
  unfolding printsCommitId_def
  by (auto simp: js_def NL_def isWhiteSpace_def)

section \<open>The conflict detector\<close>

lemma checkMergeConflicts_total: "\<exists>cs w'. checkMergeConflicts be wb bb root w = (Inr cs, w')"
  unfolding checkMergeConflicts_def
  by (auto simp: try_catch_def return_io_def split: prod.splits sum.splits)

lemma checkMergeConflicts_world:
  "snd (checkMergeConflicts be wb bb root w) =
     (case git be [js ''merge-base'', bb, wb] root w of
        (Inl e, w0) \<Rightarrow> w0
      | (Inr out0, w0) \<Rightarrow>
          (case git be [js ''diff'', js ''--name-only'', js_trim out0, bb] root w0 of
             (Inl e, w1) \<Rightarrow> w1
           | (Inr out1, w1) \<Rightarrow>
               snd (git be [js ''diff'', js ''--name-only'', js_trim out0, wb] root w1)))"
  unfolding checkMergeConflicts_def
  by (auto simp: try_catch_def bind_io_def return_io_def Let_def split: prod.splits sum.splits)

lemma readOnly_merge_base: "readOnlyCall [js ''git'', js ''merge-base'', a, b]"
  by (simp add: readOnlyCall_def)

lemma readOnly_diff: "readOnlyCall [js ''git'', js ''diff'', js ''--name-only'', a, b]"
  by (simp add: readOnlyCall_def)

lemma js_neqs:
  "js ''merge-base'' \<noteq> js ''checkout''" "js ''merge-base'' \<noteq> js ''merge''"
  "js ''diff'' \<noteq> js ''checkout''" "js ''diff'' \<noteq> js ''merge''"
  by (simp_all add: js_def)

lemma readOnly_not_mutating:
  assumes "readOnlyCall c" shows "\<not> mutatingCall c"
proof
  assume m: "mutatingCall c"
  from assms have "take 2 c = [js ''git'', js ''merge-base''] \<or> take 2 (take 3 c) = take 2 [js ''git'', js ''diff'', js ''--name-only'']"
    unfolding readOnlyCall_def by metis
  then have "take 2 c = [js ''git'', js ''merge-base''] \<or> take 2 c = [js ''git'', js ''diff'']"
    by simp
  with m js_neqs show False
    unfolding mutatingCall_def by auto
qed

lemma checkMergeConflicts_trace:
  "\<exists>new. calls (snd (checkMergeConflicts be wb bb root w)) = calls w @ new
      \<and> length new \<le> 3 \<and> list_all readOnlyCall new
      \<and> ((\<forall>file args cwd s. readOnlyCall (file # args) \<longrightarrow> snd (be file args cwd s) = s)
           \<longrightarrow> repo (snd (checkMergeConflicts be wb bb root w)) = repo w)"
proof -
  let ?q0 = "[js ''merge-base'', bb, wb]"
  let ?q1 = "\<lambda>out0. [js ''diff'', js ''--name-only'', js_trim out0, bb]"
  let ?q2 = "\<lambda>out0. [js ''diff'', js ''--name-only'', js_trim out0, wb]"
  let ?res = "snd (checkMergeConflicts be wb bb root w)"
  have ro: "readOnlyCall (js ''git'' # ?q0)" "readOnlyCall (js ''git'' # ?q1 x)"
    "readOnlyCall (js ''git'' # ?q2 x)" for x
    by (simp_all add: readOnly_merge_base readOnly_diff)
  show ?thesis
  proof (cases rule: io_cases[of "git be ?q0 root" w])
    case (err e w0)
    then have res: "?res = w0" by (simp add: checkMergeConflicts_world)
    show ?thesis
      unfolding res
      by (rule exI[of _ "[js ''git'' # ?q0]"]) (simp add: git_step[OF err] ro)
  next
    case c0: (ok out0 w0)
    show ?thesis
    proof (cases rule: io_cases[of "git be (?q1 out0) root" w0])
      case (err e w1)
      with c0 have res: "?res = w1" by (simp add: checkMergeConflicts_world)
      show ?thesis
        unfolding res
        by (rule exI[of _ "[js ''git'' # ?q0, js ''git'' # ?q1 out0]"])
           (simp add: git_step[OF c0] git_step[OF err] ro)
    next
      case c1: (ok out1 w1)
      obtain r2 w2 where c2: "git be (?q2 out0) root w1 = (r2, w2)"
        by (cases "git be (?q2 out0) root w1") auto
      with c0 c1 have res: "?res = w2" by (simp add: checkMergeConflicts_world)
      show ?thesis
        unfolding res
        by (rule exI[of _ "[js ''git'' # ?q0, js ''git'' # ?q1 out0, js ''git'' # ?q2 out0]"])
           (simp add: git_step[OF c0] git_step[OF c1] git_step[OF c2] ro)
    qed
  qed
qed

lemma list_all_not_list_ex:
  "list_all P xs \<Longrightarrow> (\<And>x. P x \<Longrightarrow> \<not> Q x) \<Longrightarrow> \<not> list_ex Q xs"
  by (induction xs) auto

lemma checkMergeConflicts_parsed:
  assumes "git be [js ''merge-base'', baseBranch, workerBranch] repoRoot w = (Inr out0, w0)"
    and "git be [js ''diff'', js ''--name-only'', js_trim out0, baseBranch] repoRoot w0 = (Inr out1, w1)"
    and "git be [js ''diff'', js ''--name-only'', js_trim out0, workerBranch] repoRoot w1 = (Inr out2, w2)"
  shows "checkMergeConflicts be workerBranch baseBranch repoRoot w
           = (if js_trim out1 = [] \<or> js_trim out2 = [] then Inr []
              else Inr (filter (\<lambda>f. f \<in> set (filter (\<lambda>f. f \<noteq> []) (js_split NL (js_trim out1))))
                         (filter (\<lambda>f. f \<noteq> []) (js_split NL (js_trim out2)))), w2)"
  unfolding checkMergeConflicts_def
  using assms
  by (simp add: try_catch_def bind_io_def return_io_def Let_def)

lemma checkMergeConflicts_plain_lists:
  assumes "git be [js ''merge-base'', baseBranch, workerBranch] repoRoot w = (Inr out0, w0)"
    and "git be [js ''diff'', js ''--name-only'', js_trim out0, baseBranch] repoRoot w0
           = (Inr (printNames baseChanged), w1)"
    and "git be [js ''diff'', js ''--name-only'', js_trim out0, workerBranch] repoRoot w1
           = (Inr (printNames workerChanged), w2)"
    and "plainPaths baseChanged" and "plainPaths workerChanged"
  shows "checkMergeConflicts be workerBranch baseBranch repoRoot w
           = (Inr (orderedIntersection baseChanged workerChanged), w2)"
proof -
  note b = parse_printNames[OF assms(4)] and k = parse_printNames[OF assms(5)]
  have "orderedIntersection baseChanged workerChanged = []" if "baseChanged = [] \<or> workerChanged = []"
    using that by (auto simp: orderedIntersection_def)
  with b k show ?thesis
    unfolding checkMergeConflicts_parsed[OF assms(1,2,3)]
    by (auto simp: orderedIntersection_def)
qed

text \<open>
  Claim C1. \<open>checkMergeConflicts\<close> is to return the worker's list of changed files filtered to
  the members of the base's list, in the worker's order. The code trims the whole text of
  each listing before it splits it into lines, so the white space that begins the first path
  or ends the last one is lost. Where \<open>main\<close> changed only \<^verbatim>\<open>" y"\<close> and the worker changed
  \<open>a\<close> and \<open>y\<close>, the two lists are disjoint and the code reports \<open>y\<close>. On lists that no
  trimming alters the result is the ordered intersection (\<open>checkMergeConflicts_plain_lists\<close>).
\<close>

theorem checkMergeConflicts_edge_whitespace:
  "fst (space_git (js ''git'') [js ''diff'', js ''--name-only'', js ''abc123'', js ''main''] (js ''/repo'') ())
     = Some (printNames [js '' y''])
   \<and> fst (space_git (js ''git'') [js ''diff'', js ''--name-only'', js ''abc123'', js ''team/w1''] (js ''/repo'') ())
     = Some (printNames [js ''a'', js ''y''])
   \<and> orderedIntersection [js '' y''] [js ''a'', js ''y''] = []
   \<and> fst (checkMergeConflicts space_git (js ''team/w1'') (js ''main'') (js ''/repo'') (fresh ()))
     = Inr [js ''y'']"
  by (simp add: checkMergeConflicts_def space_git_def printNames_def orderedIntersection_def run_defs)

text \<open>
  Claim C5. When the merge-base query or one of the two changed-file queries of the detector
  fails, \<open>checkMergeConflicts\<close> returns the empty sequence and raises no error.
\<close>

theorem checkMergeConflicts_query_failure:
  assumes "isl (fst (git be [js ''merge-base'', baseBranch, workerBranch] repoRoot w))
     \<or> (\<exists>out0 w0. git be [js ''merge-base'', baseBranch, workerBranch] repoRoot w = (Inr out0, w0)
          \<and> isl (fst (git be [js ''diff'', js ''--name-only'', js_trim out0, baseBranch] repoRoot w0)))
     \<or> (\<exists>out0 w0 out1 w1. git be [js ''merge-base'', baseBranch, workerBranch] repoRoot w = (Inr out0, w0)
          \<and> git be [js ''diff'', js ''--name-only'', js_trim out0, baseBranch] repoRoot w0 = (Inr out1, w1)
          \<and> isl (fst (git be [js ''diff'', js ''--name-only'', js_trim out0, workerBranch] repoRoot w1)))"
  shows "\<exists>w'. checkMergeConflicts be workerBranch baseBranch repoRoot w = (Inr [], w')"
  using assms unfolding checkMergeConflicts_def
  by (auto simp: try_catch_def bind_io_def return_io_def Let_def isl_def split: prod.splits sum.splits)

theorem checkMergeConflicts_query_failure_witness:
  "isl (fst (git demo_git [js ''merge-base'', js ''main'', js ''missing''] (js ''/repo'') (fresh [])))
   \<and> checkMergeConflicts demo_git (js ''missing'') (js ''main'') (js ''/repo'') (fresh [])
       = (Inr [], \<lparr>repo = [], calls = [[js ''git'', js ''merge-base'', js ''main'', js ''missing'']]\<rparr>)"
proof -
  have h: "isl (fst (git demo_git [js ''merge-base'', js ''main'', js ''missing''] (js ''/repo'') (fresh [])))"
    by (simp add: run_defs)
  from checkMergeConflicts_query_failure[OF disjI1, OF h]
  obtain w' where r: "checkMergeConflicts demo_git (js ''missing'') (js ''main'') (js ''/repo'') (fresh [])
       = (Inr [], w')" by blast
  have "snd (checkMergeConflicts demo_git (js ''missing'') (js ''main'') (js ''/repo'') (fresh []))
     = \<lparr>repo = [], calls = [[js ''git'', js ''merge-base'', js ''main'', js ''missing'']]\<rparr>"
    by (simp add: checkMergeConflicts_world) (simp add: run_defs)
  with r h show ?thesis by simp
qed

text \<open>
  Claim C6. The commands that \<open>checkMergeConflicts\<close> runs are at most three, each a merge-base
  or a changed-files query and none a checkout, a merge or a merge abort; with a backend whose
  queries leave the repository as it is, the repository after the call is the one before.
\<close>

theorem checkMergeConflicts_read_only:
  "\<exists>new. calls (snd (checkMergeConflicts be workerBranch baseBranch repoRoot w)) = calls w @ new
      \<and> length new \<le> 3 \<and> list_all readOnlyCall new \<and> \<not> list_ex mutatingCall new
      \<and> ((\<forall>file args cwd s. readOnlyCall (file # args) \<longrightarrow> snd (be file args cwd s) = s)
           \<longrightarrow> repo (snd (checkMergeConflicts be workerBranch baseBranch repoRoot w)) = repo w)"
  using checkMergeConflicts_trace[of be workerBranch baseBranch repoRoot w]
    list_all_not_list_ex[where P=readOnlyCall and Q=mutatingCall, OF _ readOnly_not_mutating]
  by blast

theorem checkMergeConflicts_read_only_witness:
  "calls (snd (checkMergeConflicts demo_git (js ''team/w2'') (js ''main'') (js ''/repo'') (fresh [])))
     = [[js ''git'', js ''merge-base'', js ''main'', js ''team/w2''],
        [js ''git'', js ''diff'', js ''--name-only'', js ''abc123'', js ''main''],
        [js ''git'', js ''diff'', js ''--name-only'', js ''abc123'', js ''team/w2'']]
   \<and> repo (snd (checkMergeConflicts demo_git (js ''team/w2'') (js ''main'') (js ''/repo'') (fresh [])))
     = repo (fresh [])"
proof -
  have "repo (snd (checkMergeConflicts demo_git (js ''team/w2'') (js ''main'') (js ''/repo'') (fresh [])))
     = repo (fresh [])"
    using checkMergeConflicts_read_only[of demo_git "js ''team/w2''" "js ''main''" "js ''/repo''" "fresh []"]
      demo_git_queries_read_only by blast
  moreover have "calls (snd (checkMergeConflicts demo_git (js ''team/w2'') (js ''main'') (js ''/repo'') (fresh [])))
     = [[js ''git'', js ''merge-base'', js ''main'', js ''team/w2''],
        [js ''git'', js ''diff'', js ''--name-only'', js ''abc123'', js ''main''],
        [js ''git'', js ''diff'', js ''--name-only'', js ''abc123'', js ''team/w2'']]"
    by (simp add: checkMergeConflicts_world) (simp add: run_defs)
  ultimately show ?thesis by simp
qed

section \<open>The merge of one branch\<close>

lemma abort_swallowed:
  "try_catch (bind_io (git be [js ''merge'', js ''--abort''] root) (\<lambda>_. return_io ())) (\<lambda>_. return_io ()) w
     = (Inr (), snd (git be [js ''merge'', js ''--abort''] root w))"
  by (rule io_cases[of "git be [js ''merge'', js ''--abort''] root" w])
     (simp_all add: try_catch_def bind_io_def return_io_def)

lemma handler_run:
  assumes "checkMergeConflicts be wb bb root (snd (git be [js ''merge'', js ''--abort''] root w)) = (Inr cs, wd)"
  shows "bind_io (try_catch (bind_io (git be [js ''merge'', js ''--abort''] root) (\<lambda>_. return_io ()))
                    (\<lambda>_. return_io ()))
           (\<lambda>_. bind_io (checkMergeConflicts be wb bb root)
                  (\<lambda>conflicts. return_io \<lparr>workerName = n, branch = wb, success = False,
                                          conflicts = conflicts, mergeCommit = None\<rparr>)) w
         = (Inr \<lparr>workerName = n, branch = wb, success = False, conflicts = cs, mergeCommit = None\<rparr>, wd)"
  using assms by (simp add: bind_io_def abort_swallowed return_io_def)

lemma mergeWorkerBranch_checkout_fails:
  assumes "git be [js ''checkout'', bb] root w = (Inl e, w1)"
    and "checkMergeConflicts be wb bb root (snd (git be [js ''merge'', js ''--abort''] root w1)) = (Inr cs, wd)"
  shows "mergeWorkerBranch be wb bb root w
         = (Inr \<lparr>workerName = workerNameOf wb, branch = wb, success = False,
                  conflicts = cs, mergeCommit = None\<rparr>, wd)"
  unfolding mergeWorkerBranch_def Let_def
  by (subst try_catch_def) (simp add: bind_io_def[of "git be [js ''checkout'', bb] root"] assms(1) handler_run[OF assms(2)])

lemma mergeWorkerBranch_merge_fails:
  assumes "git be [js ''checkout'', bb] root w = (Inr x1, w1)"
    and "git be (mergeArgs wb bb) root w1 = (Inl e, w2)"
    and "checkMergeConflicts be wb bb root (snd (git be [js ''merge'', js ''--abort''] root w2)) = (Inr cs, wd)"
  shows "mergeWorkerBranch be wb bb root w
         = (Inr \<lparr>workerName = workerNameOf wb, branch = wb, success = False,
                  conflicts = cs, mergeCommit = None\<rparr>, wd)"
  unfolding mergeWorkerBranch_def Let_def
  by (subst try_catch_def)
     (simp add: bind_io_def[of "git be [js ''checkout'', bb] root"]
        bind_io_def[of "git be (mergeArgs wb bb) root"] assms(1,2) handler_run[OF assms(3)])

lemma mergeWorkerBranch_head_fails:
  assumes "git be [js ''checkout'', bb] root w = (Inr x1, w1)"
    and "git be (mergeArgs wb bb) root w1 = (Inr x2, w2)"
    and "git be [js ''rev-parse'', js ''HEAD''] root w2 = (Inl e, w3)"
    and "checkMergeConflicts be wb bb root (snd (git be [js ''merge'', js ''--abort''] root w3)) = (Inr cs, wd)"
  shows "mergeWorkerBranch be wb bb root w
         = (Inr \<lparr>workerName = workerNameOf wb, branch = wb, success = False,
                  conflicts = cs, mergeCommit = None\<rparr>, wd)"
  unfolding mergeWorkerBranch_def Let_def
  by (subst try_catch_def)
     (simp add: bind_io_def[of "git be [js ''checkout'', bb] root"]
        bind_io_def[of "git be (mergeArgs wb bb) root"]
        bind_io_def[of "git be [js ''rev-parse'', js ''HEAD''] root"] assms(1,2,3) handler_run[OF assms(4)])

lemma mergeWorkerBranch_succeeds:
  assumes "git be [js ''checkout'', bb] root w = (Inr x1, w1)"
    and "git be (mergeArgs wb bb) root w1 = (Inr x2, w2)"
    and "git be [js ''rev-parse'', js ''HEAD''] root w2 = (Inr out, w3)"
  shows "mergeWorkerBranch be wb bb root w
         = (Inr \<lparr>workerName = workerNameOf wb, branch = wb, success = True,
                  conflicts = [], mergeCommit = Some (js_trim out)\<rparr>, w3)"
  unfolding mergeWorkerBranch_def Let_def
  by (subst try_catch_def)
     (simp add: bind_io_def[of "git be [js ''checkout'', bb] root"]
        bind_io_def[of "git be (mergeArgs wb bb) root"]
        bind_io_def[of "git be [js ''rev-parse'', js ''HEAD''] root"] assms return_io_def)

lemma mergeWorkerBranch_cases:
  obtains
    (checkout_fails) e w1 cs wd where
      "git be [js ''checkout'', bb] root w = (Inl e, w1)"
      "checkMergeConflicts be wb bb root (snd (git be [js ''merge'', js ''--abort''] root w1)) = (Inr cs, wd)"
      "mergeWorkerBranch be wb bb root w
         = (Inr \<lparr>workerName = workerNameOf wb, branch = wb, success = False,
                  conflicts = cs, mergeCommit = None\<rparr>, wd)"
  | (merge_fails) x1 w1 e w2 cs wd where
      "git be [js ''checkout'', bb] root w = (Inr x1, w1)"
      "git be (mergeArgs wb bb) root w1 = (Inl e, w2)"
      "checkMergeConflicts be wb bb root (snd (git be [js ''merge'', js ''--abort''] root w2)) = (Inr cs, wd)"
      "mergeWorkerBranch be wb bb root w
         = (Inr \<lparr>workerName = workerNameOf wb, branch = wb, success = False,
                  conflicts = cs, mergeCommit = None\<rparr>, wd)"
  | (head_fails) x1 w1 x2 w2 e w3 cs wd where
      "git be [js ''checkout'', bb] root w = (Inr x1, w1)"
      "git be (mergeArgs wb bb) root w1 = (Inr x2, w2)"
      "git be [js ''rev-parse'', js ''HEAD''] root w2 = (Inl e, w3)"
      "checkMergeConflicts be wb bb root (snd (git be [js ''merge'', js ''--abort''] root w3)) = (Inr cs, wd)"
      "mergeWorkerBranch be wb bb root w
         = (Inr \<lparr>workerName = workerNameOf wb, branch = wb, success = False,
                  conflicts = cs, mergeCommit = None\<rparr>, wd)"
  | (succeeds) x1 w1 x2 w2 out w3 where
      "git be [js ''checkout'', bb] root w = (Inr x1, w1)"
      "git be (mergeArgs wb bb) root w1 = (Inr x2, w2)"
      "git be [js ''rev-parse'', js ''HEAD''] root w2 = (Inr out, w3)"
      "mergeWorkerBranch be wb bb root w
         = (Inr \<lparr>workerName = workerNameOf wb, branch = wb, success = True,
                  conflicts = [], mergeCommit = Some (js_trim out)\<rparr>, w3)"
proof (cases rule: io_cases[of "git be [js ''checkout'', bb] root" w])
  case c1: (err e w1)
  obtain cs wd where cd:
    "checkMergeConflicts be wb bb root (snd (git be [js ''merge'', js ''--abort''] root w1)) = (Inr cs, wd)"
    using checkMergeConflicts_total by blast
  show ?thesis
    by (rule checkout_fails[OF c1 cd mergeWorkerBranch_checkout_fails[OF c1 cd]])
next
  case c1: (ok x1 w1)
  show ?thesis
  proof (cases rule: io_cases[of "git be (mergeArgs wb bb) root" w1])
    case c2: (err e w2)
    obtain cs wd where cd:
      "checkMergeConflicts be wb bb root (snd (git be [js ''merge'', js ''--abort''] root w2)) = (Inr cs, wd)"
      using checkMergeConflicts_total by blast
    show ?thesis
      by (rule merge_fails[OF c1 c2 cd mergeWorkerBranch_merge_fails[OF c1 c2 cd]])
  next
    case c2: (ok x2 w2)
    show ?thesis
    proof (cases rule: io_cases[of "git be [js ''rev-parse'', js ''HEAD''] root" w2])
      case c3: (err e w3)
      obtain cs wd where cd:
        "checkMergeConflicts be wb bb root (snd (git be [js ''merge'', js ''--abort''] root w3)) = (Inr cs, wd)"
        using checkMergeConflicts_total by blast
      show ?thesis
        by (rule head_fails[OF c1 c2 c3 cd mergeWorkerBranch_head_fails[OF c1 c2 c3 cd]])
    next
      case c3: (ok out w3)
      show ?thesis
        by (rule succeeds[OF c1 c2 c3 mergeWorkerBranch_succeeds[OF c1 c2 c3]])
    qed
  qed
qed

lemma mergeWorkerBranch_total: "\<exists>r w'. mergeWorkerBranch be wb bb root w = (Inr r, w')"
  by (cases rule: mergeWorkerBranch_cases[of be bb root w wb]) simp_all

lemma mergeWorkerBranch_branch:
  "mergeWorkerBranch be wb bb root w = (Inr r, w') \<Longrightarrow> branch r = wb"
  by (cases rule: mergeWorkerBranch_cases[of be bb root w wb]) auto

text \<open>
  Claim C3. With a backend that keeps the contract of the current commit id, every result of
  \<open>mergeWorkerBranch\<close> (there always is one) has, when \<open>success\<close> is true, a \<open>mergeCommit\<close>
  that is present and not empty and an empty \<open>conflicts\<close>, and when \<open>success\<close> is false an
  absent \<open>mergeCommit\<close>.
\<close>

theorem mergeWorkerBranch_result_shape:
  assumes "printsCommitId be"
  shows "\<exists>r w'. mergeWorkerBranch be workerBranch baseBranch repoRoot w = (Inr r, w')
           \<and> (success r \<longrightarrow> (\<exists>commit. mergeCommit r = Some commit \<and> commit \<noteq> []) \<and> conflicts r = [])
           \<and> (\<not> success r \<longrightarrow> mergeCommit r = None)"
proof (cases rule: mergeWorkerBranch_cases[of be baseBranch repoRoot w workerBranch])
  case (succeeds x1 w1 x2 w2 out w3)
  from execFileSync_Inr[OF succeeds(3)] assms have "\<exists>c\<in>set out. \<not> isWhiteSpace c"
    unfolding printsCommitId_def by blast
  then have "js_trim out \<noteq> []" by (simp add: js_trim_not_Nil_iff)
  with succeeds(4) show ?thesis by simp
qed simp_all

theorem mergeWorkerBranch_result_shape_witness:
  "printsCommitId demo_git
   \<and> fst (mergeWorkerBranch demo_git (js ''team/w1'') (js ''main'') (js ''/repo'') (fresh []))
     = Inr \<lparr>workerName = js ''w1'', branch = js ''team/w1'', success = True,
             conflicts = [], mergeCommit = Some (js ''c0ffee'')\<rparr>
   \<and> js ''c0ffee'' \<noteq> []
   \<and> fst (mergeWorkerBranch demo_git (js ''team/w2'') (js ''main'') (js ''/repo'') (fresh []))
     = Inr \<lparr>workerName = js ''w2'', branch = js ''team/w2'', success = False,
             conflicts = [js ''README.md''], mergeCommit = None\<rparr>"
  using mergeWorkerBranch_result_shape[OF demo_git_printsCommitId,
          of "js ''team/w1''" "js ''main''" "js ''/repo''" "fresh []"]
        demo_git_printsCommitId
  by (simp add: demo_merge_w1 demo_merge_w2)

text \<open>
  Claim C4. When the checkout or the merge fails, \<open>mergeWorkerBranch\<close> runs
  \<^verbatim>\<open>git merge --abort\<close> from the world of the failure, whatever the abort answers, then runs
  the conflict detector from the world the abort left, and returns (it raises nothing) a
  result with \<open>success\<close> false, \<open>mergeCommit\<close> absent and the detector's list as
  \<open>conflicts\<close>.
\<close>

theorem mergeWorkerBranch_failure_path:
  assumes "c1 = git be [js ''checkout'', baseBranch] repoRoot w"
    and "c2 = git be [js ''merge'', js ''--no-ff'', js ''-m'',
                      js ''Merge '' @ workerBranch @ js '' into '' @ baseBranch, workerBranch]
                 repoRoot (snd c1)"
    and "wfail = (if isl (fst c1) then snd c1 else snd c2)"
    and "wabort = snd (git be [js ''merge'', js ''--abort''] repoRoot wfail)"
  shows "(\<exists>r w'. mergeWorkerBranch be workerBranch baseBranch repoRoot w = (Inr r, w'))
     \<and> (isl (fst c1) \<or> isl (fst c2) \<longrightarrow>
          (\<exists>cs wd r. checkMergeConflicts be workerBranch baseBranch repoRoot wabort = (Inr cs, wd)
             \<and> mergeWorkerBranch be workerBranch baseBranch repoRoot w = (Inr r, wd)
             \<and> \<not> success r \<and> mergeCommit r = None \<and> conflicts r = cs
             \<and> branch r = workerBranch
             \<and> calls wabort = calls wfail @ [[js ''git'', js ''merge'', js ''--abort'']]))"
proof (intro conjI impI)
  show "\<exists>r w'. mergeWorkerBranch be workerBranch baseBranch repoRoot w = (Inr r, w')"
    by (rule mergeWorkerBranch_total)
next
  assume fails: "isl (fst c1) \<or> isl (fst c2)"
  obtain cs wd where cd: "checkMergeConflicts be workerBranch baseBranch repoRoot wabort = (Inr cs, wd)"
    using checkMergeConflicts_total by blast
  have calls: "calls wabort = calls wfail @ [[js ''git'', js ''merge'', js ''--abort'']]"
    unfolding assms(4) by (rule execFileSync_calls)
  have run: "mergeWorkerBranch be workerBranch baseBranch repoRoot w
         = (Inr \<lparr>workerName = workerNameOf workerBranch, branch = workerBranch, success = False,
                  conflicts = cs, mergeCommit = None\<rparr>, wd)"
  proof (cases "isl (fst c1)")
    case True
    then obtain e where "c1 = (Inl e, wfail)"
      using assms(3) by (cases c1; cases "fst c1") auto
    then show ?thesis
      using cd assms(1,4) by (intro mergeWorkerBranch_checkout_fails) auto
  next
    case False
    then obtain x1 where 1: "c1 = (Inr x1, snd c1)"
      by (cases c1; cases "fst c1") auto
    from False fails assms(3) obtain e where 2: "c2 = (Inl e, wfail)"
      by (cases c2; cases "fst c2") auto
    show ?thesis
      using 1 2 cd assms(1,2,4) by (intro mergeWorkerBranch_merge_fails[where ?w1.0="snd c1"]) auto
  qed
  show "\<exists>cs wd r. checkMergeConflicts be workerBranch baseBranch repoRoot wabort = (Inr cs, wd)
             \<and> mergeWorkerBranch be workerBranch baseBranch repoRoot w = (Inr r, wd)
             \<and> \<not> success r \<and> mergeCommit r = None \<and> conflicts r = cs
             \<and> branch r = workerBranch
             \<and> calls wabort = calls wfail @ [[js ''git'', js ''merge'', js ''--abort'']]"
    by (intro exI[of _ cs] exI[of _ wd] exI[of _ "\<lparr>workerName = workerNameOf workerBranch,
          branch = workerBranch, success = False, conflicts = cs, mergeCommit = None\<rparr>"])
       (simp add: cd run calls)
qed

theorem mergeWorkerBranch_failure_path_witness:
  "isl (fst (git demo_git (mergeArgs (js ''team/w2'') (js ''main'')) (js ''/repo'')
               (snd (git demo_git [js ''checkout'', js ''main''] (js ''/repo'') (fresh [])))))
   \<and> isl (fst (git demo_git [js ''merge'', js ''--abort''] (js ''/repo'')
               (snd (git demo_git (mergeArgs (js ''team/w2'') (js ''main'')) (js ''/repo'')
                  (snd (git demo_git [js ''checkout'', js ''main''] (js ''/repo'') (fresh [])))))))
   \<and> mergeWorkerBranch demo_git (js ''team/w2'') (js ''main'') (js ''/repo'') (fresh [])
     = (Inr \<lparr>workerName = js ''w2'', branch = js ''team/w2'', success = False,
              conflicts = [js ''README.md''], mergeCommit = None\<rparr>,
        \<lparr>repo = [],
         calls = [[js ''git'', js ''checkout'', js ''main''],
                  [js ''git'', js ''merge'', js ''--no-ff'', js ''-m'',
                   js ''Merge team/w2 into main'', js ''team/w2''],
                  [js ''git'', js ''merge'', js ''--abort''],
                  [js ''git'', js ''merge-base'', js ''main'', js ''team/w2''],
                  [js ''git'', js ''diff'', js ''--name-only'', js ''abc123'', js ''main''],
                  [js ''git'', js ''diff'', js ''--name-only'', js ''abc123'', js ''team/w2'']]\<rparr>)"
  using mergeWorkerBranch_failure_path[where be=demo_git and baseBranch="js ''main''"
          and repoRoot="js ''/repo''" and w="fresh []" and workerBranch="js ''team/w2''", OF refl refl refl refl]
  by (simp add: demo_merge_w2) (simp add: run_defs)

text \<open>
  Claim C8, as amended. The \<open>workerName\<close> of the result is the substring of the branch name
  after its last \<^verbatim>\<open>/\<close> when that substring is not empty, and the whole branch name
  otherwise; it is the whole branch name when the branch name has no \<^verbatim>\<open>/\<close>.
\<close>

theorem mergeWorkerBranch_workerName:
  "\<exists>r w'. mergeWorkerBranch be workerBranch baseBranch repoRoot w = (Inr r, w')
     \<and> workerName r = (if afterLast SLASH workerBranch = [] then workerBranch
                       else afterLast SLASH workerBranch)
     \<and> (SLASH \<notin> set workerBranch \<longrightarrow> workerName r = workerBranch)"
  by (cases rule: mergeWorkerBranch_cases[of be baseBranch repoRoot w workerBranch])
     (simp_all only: workerNameOf_afterLast, simp_all add: afterLast_no_sep)

theorem mergeWorkerBranch_workerName_witness:
  "SLASH \<notin> set (js ''solo'')
   \<and> workerName (projr (fst (mergeWorkerBranch demo_git (js ''solo'') (js ''main'') (js ''/repo'') (fresh []))))
     = js ''solo''
   \<and> afterLast SLASH (js ''team/w1'') = js ''w1''
   \<and> workerName (projr (fst (mergeWorkerBranch demo_git (js ''team/w1'') (js ''main'') (js ''/repo'') (fresh []))))
     = js ''w1''"
proof -
  have h: "SLASH \<notin> set (js ''solo'')" by (simp add: js_def SLASH_def)
  have a: "afterLast SLASH (js ''team/w1'') = js ''w1''" by (simp add: afterLast_def js_def SLASH_def)
  from mergeWorkerBranch_workerName[of demo_git "js ''solo''" "js ''main''" "js ''/repo''" "fresh []"] h
  have 1: "workerName (projr (fst (mergeWorkerBranch demo_git (js ''solo'') (js ''main'') (js ''/repo'') (fresh []))))
     = js ''solo''" by auto
  from mergeWorkerBranch_workerName[of demo_git "js ''team/w1''" "js ''main''" "js ''/repo''" "fresh []"]
  have 2: "workerName (projr (fst (mergeWorkerBranch demo_git (js ''team/w1'') (js ''main'') (js ''/repo'') (fresh []))))
     = js ''w1''" unfolding a by (auto simp: js_def)
  from h a 1 2 show ?thesis by simp
qed

text \<open>
  The claim as first stated takes the substring after the last \<^verbatim>\<open>/\<close> in every case. For a
  branch name that ends in \<^verbatim>\<open>/\<close> that substring is empty, and the worker name is the whole
  branch name.
\<close>

theorem mergeWorkerBranch_workerName_counterexample:
  "workerName (projr (fst (mergeWorkerBranch blank_git (js ''team/'') (js ''main'') (js ''/repo'') (fresh ()))))
     = js ''team/''
   \<and> afterLast SLASH (js ''team/'') = []
   \<and> workerName (projr (fst (mergeWorkerBranch blank_git (js ''team/'') (js ''main'') (js ''/repo'') (fresh ()))))
     \<noteq> afterLast SLASH (js ''team/'')"
  by (simp add: mergeWorkerBranch_def blank_git_def afterLast_def run_defs)

text \<open>
  Claim C9. \<open>mergeWorkerBranch\<close> reports success exactly when the checkout, the merge and the
  resolution of \<open>HEAD\<close> all succeed. When the first two succeed and the resolution of
  \<open>HEAD\<close> fails, the result has \<open>success\<close> false and \<open>mergeCommit\<close> absent, and its
  \<open>conflicts\<close> and final world are those of the detector run after the abort.
\<close>

theorem mergeWorkerBranch_success_iff:
  assumes "c1 = git be [js ''checkout'', baseBranch] repoRoot w"
    and "c2 = git be [js ''merge'', js ''--no-ff'', js ''-m'',
                      js ''Merge '' @ workerBranch @ js '' into '' @ baseBranch, workerBranch]
                 repoRoot (snd c1)"
    and "c3 = git be [js ''rev-parse'', js ''HEAD''] repoRoot (snd c2)"
    and "wabort = snd (git be [js ''merge'', js ''--abort''] repoRoot (snd c3))"
  shows "\<exists>r w'. mergeWorkerBranch be workerBranch baseBranch repoRoot w = (Inr r, w')
           \<and> (success r \<longleftrightarrow> \<not> isl (fst c1) \<and> \<not> isl (fst c2) \<and> \<not> isl (fst c3))
           \<and> (\<not> isl (fst c1) \<and> \<not> isl (fst c2) \<and> isl (fst c3) \<longrightarrow>
                \<not> success r \<and> mergeCommit r = None
                \<and> checkMergeConflicts be workerBranch baseBranch repoRoot wabort = (Inr (conflicts r), w'))"
  by (cases rule: mergeWorkerBranch_cases[of be baseBranch repoRoot w workerBranch])
     (simp_all add: assms)

theorem mergeWorkerBranch_success_iff_witness:
  "\<not> isl (fst (git headless_git [js ''checkout'', js ''main''] (js ''/repo'') (fresh ())))
   \<and> \<not> isl (fst (git headless_git (mergeArgs (js ''team/w1'') (js ''main'')) (js ''/repo'')
               (snd (git headless_git [js ''checkout'', js ''main''] (js ''/repo'') (fresh ())))))
   \<and> isl (fst (git headless_git [js ''rev-parse'', js ''HEAD''] (js ''/repo'')
               (snd (git headless_git (mergeArgs (js ''team/w1'') (js ''main'')) (js ''/repo'')
                  (snd (git headless_git [js ''checkout'', js ''main''] (js ''/repo'') (fresh ())))))))
   \<and> mergeWorkerBranch headless_git (js ''team/w1'') (js ''main'') (js ''/repo'') (fresh ())
     = (Inr \<lparr>workerName = js ''w1'', branch = js ''team/w1'', success = False,
              conflicts = [], mergeCommit = None\<rparr>,
        \<lparr>repo = (),
         calls = [[js ''git'', js ''checkout'', js ''main''],
                  [js ''git'', js ''merge'', js ''--no-ff'', js ''-m'',
                   js ''Merge team/w1 into main'', js ''team/w1''],
                  [js ''git'', js ''rev-parse'', js ''HEAD''],
                  [js ''git'', js ''merge'', js ''--abort''],
                  [js ''git'', js ''merge-base'', js ''main'', js ''team/w1''],
                  [js ''git'', js ''diff'', js ''--name-only'', [], js ''main''],
                  [js ''git'', js ''diff'', js ''--name-only'', [], js ''team/w1'']]\<rparr>)
   \<and> success (projr (fst (mergeWorkerBranch demo_git (js ''team/w1'') (js ''main'') (js ''/repo'') (fresh []))))"
  using mergeWorkerBranch_success_iff[where be=headless_git and baseBranch="js ''main''"
          and repoRoot="js ''/repo''" and w="fresh ()" and workerBranch="js ''team/w1''", OF refl refl refl refl]
        mergeWorkerBranch_success_iff[where be=demo_git and baseBranch="js ''main''"
          and repoRoot="js ''/repo''" and w="fresh []" and workerBranch="js ''team/w1''", OF refl refl refl refl]
  by (simp add: demo_merge_w1) (simp add: mergeWorkerBranch_def checkMergeConflicts_def headless_git_def run_defs)

section \<open>The batch\<close>

lemma truncateAtFailure_Nil: "truncateAtFailure [] = []"
  by (simp add: truncateAtFailure_def)

lemma truncateAtFailure_Cons:
  "truncateAtFailure (r # rs) = (if success r then r # truncateAtFailure rs else [r])"
  by (simp add: truncateAtFailure_def)

lemma truncateAtFailure_prefix: "truncateAtFailure rs = take (length (truncateAtFailure rs)) rs"
  by (induction rs) (simp_all add: truncateAtFailure_Nil truncateAtFailure_Cons)

lemma length_truncateAtFailure: "length (truncateAtFailure rs) \<le> length rs"
  by (induction rs) (simp_all add: truncateAtFailure_Nil truncateAtFailure_Cons)

lemma truncateAtFailure_all_success:
  "\<forall>r\<in>set (truncateAtFailure rs). success r \<Longrightarrow> truncateAtFailure rs = rs"
  by (induction rs) (simp_all add: truncateAtFailure_Nil truncateAtFailure_Cons split: if_splits)

lemma mergeEach_Cons:
  assumes "mergeWorkerBranch be b base root w = (Inr r, w1)"
    and "mergeEach be base root bs w1 = (Inr rs, w2)"
  shows "mergeEach be base root (b # bs) w = (Inr (r # rs), w2)"
  using assms by (simp add: bind_io_def return_io_def)

lemma mergeEach_total:
  "\<exists>rs w'. mergeEach be base root bs w = (Inr rs, w') \<and> map branch rs = bs"
proof (induction bs arbitrary: w)
  case Nil
  show ?case by (simp add: return_io_def)
next
  case (Cons b bs)
  obtain r w1 where r: "mergeWorkerBranch be b base root w = (Inr r, w1)"
    using mergeWorkerBranch_total by blast
  obtain rs w2 where rs: "mergeEach be base root bs w1 = (Inr rs, w2)" "map branch rs = bs"
    using Cons.IH by blast
  show ?case
    using mergeEach_Cons[OF r rs(1)] mergeWorkerBranch_branch[OF r] rs(2) by simp
qed

lemma mergeLoop_truncate:
  assumes "mergeEach be base root (map wt_branch wts) w = (Inr rs, wfin)"
  shows "mergeLoop be base root wts acc w
         = (Inr (acc @ truncateAtFailure rs),
            snd (mergeEach be base root (take (length (truncateAtFailure rs)) (map wt_branch wts)) w))"
  using assms
proof (induction wts arbitrary: acc w rs wfin)
  case Nil
  then show ?case by (simp add: return_io_def truncateAtFailure_Nil)
next
  case (Cons wt wts)
  obtain r w1 where r: "mergeWorkerBranch be (wt_branch wt) base root w = (Inr r, w1)"
    using mergeWorkerBranch_total by blast
  obtain rs' w2 where rs': "mergeEach be base root (map wt_branch wts) w1 = (Inr rs', w2)"
    using mergeEach_total by blast
  from Cons.prems mergeEach_Cons[OF r rs'] have rs: "rs = r # rs'" by simp
  show ?case
  proof (cases "success r")
    case False
    have "mergeEach be base root [wt_branch wt] w = (Inr [r], w1)"
      using mergeEach_Cons[OF r, of "[]" "[]" w1] by (simp add: return_io_def)
    with False r rs show ?thesis
      by (simp add: truncateAtFailure_Cons)
  next
    case True
    obtain rs'' w3 where t: "mergeEach be base root
        (take (length (truncateAtFailure rs')) (map wt_branch wts)) w1 = (Inr rs'', w3)"
      using mergeEach_total by blast
    from Cons.IH[OF rs', of "acc @ [r]"] True r rs mergeEach_Cons[OF r t] t
    show ?thesis
      by (simp add: truncateAtFailure_Cons)
  qed
qed

text \<open>
  Claim C2, as amended. When the registry lists the worktrees \<open>wts\<close> and the base branch is
  resolved (the argument is a non-empty name, or the backend gives the name of the branch
  checked out, or there is no worktree), \<open>mergeAllWorkerBranches\<close> returns the results of
  merging the branches in registry order, truncated at and including the first failure: never
  more than one per entry, the results of the first entries in order, one per entry when
  every returned result is a success; and the world it leaves is the one left by merging just
  those first branches, so no later branch is attempted.
\<close>

theorem mergeAllWorkerBranches_fail_fast:
  assumes "listTeamWorktrees teamName repoRoot (repo w) = Inr wts"
    and "wts = [] \<or> resolveBase be baseBranch repoRoot w = (Inr base, w1)"
  shows "\<exists>rs wfin. mergeEach be base repoRoot (map wt_branch wts) w1 = (Inr rs, wfin)
     \<and> fst (mergeAllWorkerBranches be listTeamWorktrees teamName repoRoot baseBranch w)
         = Inr (truncateAtFailure rs)
     \<and> length (truncateAtFailure rs) \<le> length wts
     \<and> map branch (truncateAtFailure rs) = take (length (truncateAtFailure rs)) (map wt_branch wts)
     \<and> ((\<forall>r\<in>set (truncateAtFailure rs). success r) \<longrightarrow> length (truncateAtFailure rs) = length wts)
     \<and> (wts \<noteq> [] \<longrightarrow>
          snd (mergeAllWorkerBranches be listTeamWorktrees teamName repoRoot baseBranch w)
          = snd (mergeEach be base repoRoot
                   (take (length (truncateAtFailure rs)) (map wt_branch wts)) w1))"
proof -
  obtain rs wfin where rs: "mergeEach be base repoRoot (map wt_branch wts) w1 = (Inr rs, wfin)"
    and br: "map branch rs = map wt_branch wts"
    using mergeEach_total by blast
  from br have len: "length rs = length wts"
    using length_map by metis
  have 1: "fst (mergeAllWorkerBranches be listTeamWorktrees teamName repoRoot baseBranch w)
         = Inr (truncateAtFailure rs)"
  proof (cases "wts = []")
    case True
    with rs assms(1) show ?thesis
      by (simp add: mergeAllWorkerBranches_def return_io_def truncateAtFailure_Nil)
  next
    case False
    with assms have "mergeAllWorkerBranches be listTeamWorktrees teamName repoRoot baseBranch w
       = mergeLoop be base repoRoot wts [] w1"
      by (simp add: mergeAllWorkerBranches_def bind_io_def)
    then show ?thesis by (simp add: mergeLoop_truncate[OF rs])
  qed
  have 2: "length (truncateAtFailure rs) \<le> length wts"
    using length_truncateAtFailure[of rs] len by simp
  have 3: "map branch (truncateAtFailure rs) = take (length (truncateAtFailure rs)) (map wt_branch wts)"
    using truncateAtFailure_prefix[of rs] br by (metis take_map)
  have 4: "length (truncateAtFailure rs) = length wts" if "\<forall>r\<in>set (truncateAtFailure rs). success r"
    using truncateAtFailure_all_success[OF that] len by simp
  have 5: "snd (mergeAllWorkerBranches be listTeamWorktrees teamName repoRoot baseBranch w)
          = snd (mergeEach be base repoRoot
                   (take (length (truncateAtFailure rs)) (map wt_branch wts)) w1)" if "wts \<noteq> []"
  proof -
    from that assms have "mergeAllWorkerBranches be listTeamWorktrees teamName repoRoot baseBranch w
       = mergeLoop be base repoRoot wts [] w1"
      by (simp add: mergeAllWorkerBranches_def bind_io_def)
    then show ?thesis by (simp add: mergeLoop_truncate[OF rs])
  qed
  from rs 1 2 3 4 5 show ?thesis by blast
qed

theorem mergeAllWorkerBranches_fail_fast_witness:
  "demo_registry (js ''alpha'') (js ''/repo'') (repo (fresh []))
     = Inr [\<lparr>wt_path = js ''/wt/w1'', wt_branch = js ''team/w1'', wt_workerName = js ''w1''\<rparr>,
            \<lparr>wt_path = js ''/wt/w2'', wt_branch = js ''team/w2'', wt_workerName = js ''w2''\<rparr>,
            \<lparr>wt_path = js ''/wt/w3'', wt_branch = js ''team/w3'', wt_workerName = js ''w3''\<rparr>]
   \<and> resolveBase demo_git None (js ''/repo'') (fresh [])
     = (Inr (js ''main''),
        \<lparr>repo = [], calls = [[js ''git'', js ''rev-parse'', js ''--abbrev-ref'', js ''HEAD'']]\<rparr>)
   \<and> fst (mergeEach demo_git (js ''main'') (js ''/repo'') [js ''team/w1'', js ''team/w2'', js ''team/w3'']
            \<lparr>repo = [], calls = [[js ''git'', js ''rev-parse'', js ''--abbrev-ref'', js ''HEAD'']]\<rparr>)
     = Inr [\<lparr>workerName = js ''w1'', branch = js ''team/w1'', success = True,
              conflicts = [], mergeCommit = Some (js ''c0ffee'')\<rparr>,
            \<lparr>workerName = js ''w2'', branch = js ''team/w2'', success = False,
              conflicts = [js ''README.md''], mergeCommit = None\<rparr>,
            \<lparr>workerName = js ''w3'', branch = js ''team/w3'', success = True,
              conflicts = [], mergeCommit = Some (js ''c0ffee'')\<rparr>]
   \<and> fst (mergeAllWorkerBranches demo_git demo_registry (js ''alpha'') (js ''/repo'') None (fresh []))
     = Inr [\<lparr>workerName = js ''w1'', branch = js ''team/w1'', success = True,
              conflicts = [], mergeCommit = Some (js ''c0ffee'')\<rparr>,
            \<lparr>workerName = js ''w2'', branch = js ''team/w2'', success = False,
              conflicts = [js ''README.md''], mergeCommit = None\<rparr>]
   \<and> js ''team/w3'' \<notin> set (concat (calls (snd
         (mergeAllWorkerBranches demo_git demo_registry (js ''alpha'') (js ''/repo'') None (fresh [])))))
   \<and> fst (mergeAllWorkerBranches demo_git demo_registry (js ''beta'') (js ''/repo'') None (fresh []))
     = Inr [\<lparr>workerName = js ''w1'', branch = js ''team/w1'', success = True,
              conflicts = [], mergeCommit = Some (js ''c0ffee'')\<rparr>,
            \<lparr>workerName = js ''w3'', branch = js ''team/w3'', success = True,
              conflicts = [], mergeCommit = Some (js ''c0ffee'')\<rparr>]"
proof -
  let ?root = "js ''/repo''"
  let ?W1 = "\<lparr>repo = [], calls = [[js ''git'', js ''rev-parse'', js ''--abbrev-ref'', js ''HEAD'']]\<rparr>
               :: jsstring list world"
  let ?wt1 = "\<lparr>wt_path = js ''/wt/w1'', wt_branch = js ''team/w1'', wt_workerName = js ''w1''\<rparr>"
  let ?wt2 = "\<lparr>wt_path = js ''/wt/w2'', wt_branch = js ''team/w2'', wt_workerName = js ''w2''\<rparr>"
  let ?wt3 = "\<lparr>wt_path = js ''/wt/w3'', wt_branch = js ''team/w3'', wt_workerName = js ''w3''\<rparr>"
  let ?r1 = "\<lparr>workerName = js ''w1'', branch = js ''team/w1'', success = True,
              conflicts = [], mergeCommit = Some (js ''c0ffee'')\<rparr>"
  let ?r2 = "\<lparr>workerName = js ''w2'', branch = js ''team/w2'', success = False,
              conflicts = [js ''README.md''], mergeCommit = None\<rparr>"
  let ?r3 = "\<lparr>workerName = js ''w3'', branch = js ''team/w3'', success = True,
              conflicts = [], mergeCommit = Some (js ''c0ffee'')\<rparr>"
  have ha: "demo_registry (js ''alpha'') ?root (repo (fresh [])) = Inr [?wt1, ?wt2, ?wt3]"
    by (simp add: demo_registry_def)
  have hb: "demo_registry (js ''beta'') ?root (repo (fresh [])) = Inr [?wt1, ?wt3]"
    by (simp add: demo_registry_def) (simp add: js_def)
  have base: "resolveBase demo_git None ?root (fresh []) = (Inr (js ''main''), ?W1)"
    by (simp add: resolveBase_def run_defs)
  have ea: "fst (mergeEach demo_git (js ''main'') ?root [js ''team/w1'', js ''team/w2'', js ''team/w3''] ?W1)
     = Inr [?r1, ?r2, ?r3]"
    by (simp add: mergeWorkerBranch_def checkMergeConflicts_def run_defs)
  have eb: "fst (mergeEach demo_git (js ''main'') ?root [js ''team/w1'', js ''team/w3''] ?W1)
     = Inr [?r1, ?r3]"
    by (simp add: mergeWorkerBranch_def checkMergeConflicts_def run_defs)
  have ta: "truncateAtFailure [?r1, ?r2, ?r3] = [?r1, ?r2]"
    and tb: "truncateAtFailure [?r1, ?r3] = [?r1, ?r3]"
    by (simp_all add: truncateAtFailure_def)
  have ca: "js ''team/w3'' \<notin> set (concat (calls (snd
      (mergeEach demo_git (js ''main'') ?root [js ''team/w1'', js ''team/w2''] ?W1))))"
    by (simp add: mergeWorkerBranch_def checkMergeConflicts_def run_defs)
  from mergeAllWorkerBranches_fail_fast[where be=demo_git and baseBranch=None
         and listTeamWorktrees=demo_registry and teamName="js ''alpha''" and repoRoot="?root"
         and w="fresh []", OF ha disjI2[OF base]]
  obtain rs wfin where
    a1: "mergeEach demo_git (js ''main'') ?root (map wt_branch [?wt1, ?wt2, ?wt3]) ?W1 = (Inr rs, wfin)"
    and a2: "fst (mergeAllWorkerBranches demo_git demo_registry (js ''alpha'') ?root None (fresh []))
               = Inr (truncateAtFailure rs)"
    and a3: "snd (mergeAllWorkerBranches demo_git demo_registry (js ''alpha'') ?root None (fresh []))
               = snd (mergeEach demo_git (js ''main'') ?root
                   (take (length (truncateAtFailure rs)) (map wt_branch [?wt1, ?wt2, ?wt3])) ?W1)"
    by auto
  from a1 ea have rsa: "rs = [?r1, ?r2, ?r3]" by simp
  from mergeAllWorkerBranches_fail_fast[where be=demo_git and baseBranch=None
         and listTeamWorktrees=demo_registry and teamName="js ''beta''" and repoRoot="?root"
         and w="fresh []", OF hb disjI2[OF base]]
  obtain rs' wfin' where
    b1: "mergeEach demo_git (js ''main'') ?root (map wt_branch [?wt1, ?wt3]) ?W1 = (Inr rs', wfin')"
    and b2: "fst (mergeAllWorkerBranches demo_git demo_registry (js ''beta'') ?root None (fresh []))
               = Inr (truncateAtFailure rs')"
    by auto
  from b1 eb have rsb: "rs' = [?r1, ?r3]" by simp
  have ra: "fst (mergeAllWorkerBranches demo_git demo_registry (js ''alpha'') ?root None (fresh []))
     = Inr [?r1, ?r2]"
    unfolding a2 rsa ta by (rule refl)
  have rb: "fst (mergeAllWorkerBranches demo_git demo_registry (js ''beta'') ?root None (fresh []))
     = Inr [?r1, ?r3]"
    unfolding b2 rsb tb by (rule refl)
  have na: "js ''team/w3'' \<notin> set (concat (calls (snd
         (mergeAllWorkerBranches demo_git demo_registry (js ''alpha'') ?root None (fresh [])))))"
    unfolding a3 rsa ta using ca by simp
  from ha base ea ra na rb show ?thesis by (intro conjI)
qed

text \<open>
  The claim as first stated has the batch return for every listing. With no \<open>baseBranch\<close>
  argument and a backend that cannot name the branch checked out, the call of
  \<^verbatim>\<open>git rev-parse --abbrev-ref HEAD\<close>, which stands outside every \<^verbatim>\<open>try\<close>, throws, and the
  batch returns nothing.
\<close>

theorem mergeAllWorkerBranches_fail_fast_counterexample:
  "demo_registry (js ''alpha'') (js ''/repo'') (repo (fresh []))
     = Inr [\<lparr>wt_path = js ''/wt/w1'', wt_branch = js ''team/w1'', wt_workerName = js ''w1''\<rparr>,
            \<lparr>wt_path = js ''/wt/w2'', wt_branch = js ''team/w2'', wt_workerName = js ''w2''\<rparr>,
            \<lparr>wt_path = js ''/wt/w3'', wt_branch = js ''team/w3'', wt_workerName = js ''w3''\<rparr>]
   \<and> mergeAllWorkerBranches dead_git demo_registry (js ''alpha'') (js ''/repo'') None (fresh [])
     = (Inl (ExecError [js ''git'', js ''rev-parse'', js ''--abbrev-ref'', js ''HEAD'']),
        \<lparr>repo = [], calls = [[js ''git'', js ''rev-parse'', js ''--abbrev-ref'', js ''HEAD'']]\<rparr>)"
  by (simp add: mergeAllWorkerBranches_def resolveBase_def demo_registry_def dead_git_def
        execFileSync_def bind_io_def fresh_def truthy_def)

text \<open>
  Claim C7. When the registry lists no worktree, \<open>mergeAllWorkerBranches\<close> returns the empty
  sequence and leaves the world as it was: no command is run, so neither the resolution of
  the current branch name nor any merge.
\<close>

theorem mergeAllWorkerBranches_empty_registry:
  assumes "listTeamWorktrees teamName repoRoot (repo w) = Inr []"
  shows "mergeAllWorkerBranches be listTeamWorktrees teamName repoRoot baseBranch w = (Inr [], w)"
  using assms by (simp add: mergeAllWorkerBranches_def)

theorem mergeAllWorkerBranches_empty_registry_witness:
  "demo_registry (js ''gamma'') (js ''/repo'') (repo (fresh [])) = Inr []
   \<and> mergeAllWorkerBranches demo_git demo_registry (js ''gamma'') (js ''/repo'') None (fresh [])
       = (Inr [], fresh [])"
proof -
  have h: "demo_registry (js ''gamma'') (js ''/repo'') (repo (fresh [])) = Inr []"
    by (simp add: demo_registry_def js_def)
  from mergeAllWorkerBranches_empty_registry
         [of demo_registry "js ''gamma''" "js ''/repo''" "fresh []" demo_git None, OF h] h
  show ?thesis by simp
qed

text \<open>
  Claim C10. With at least one worktree listed, a \<open>baseBranch\<close> argument that is the empty
  string makes the batch run \<^verbatim>\<open>git rev-parse --abbrev-ref HEAD\<close>: when that succeeds the batch
  is the loop of merges into the trimmed name it printed, and its results are the sequential
  merges into that name truncated at the first failure; when it fails the batch raises its
  error. In every case the batch is the one run with no \<open>baseBranch\<close> argument.
\<close>

theorem mergeAllWorkerBranches_empty_baseBranch:
  assumes "listTeamWorktrees teamName repoRoot (repo w) = Inr wts" and "wts \<noteq> []"
  shows "(\<forall>out w1. git be [js ''rev-parse'', js ''--abbrev-ref'', js ''HEAD''] repoRoot w = (Inr out, w1) \<longrightarrow>
            mergeAllWorkerBranches be listTeamWorktrees teamName repoRoot (Some []) w
              = mergeLoop be (js_trim out) repoRoot wts [] w1
            \<and> (\<exists>rs wfin. mergeEach be (js_trim out) repoRoot (map wt_branch wts) w1 = (Inr rs, wfin)
                  \<and> fst (mergeAllWorkerBranches be listTeamWorktrees teamName repoRoot (Some []) w)
                      = Inr (truncateAtFailure rs)))
       \<and> (\<forall>e w1. git be [js ''rev-parse'', js ''--abbrev-ref'', js ''HEAD''] repoRoot w = (Inl e, w1) \<longrightarrow>
            mergeAllWorkerBranches be listTeamWorktrees teamName repoRoot (Some []) w = (Inl e, w1))
       \<and> mergeAllWorkerBranches be listTeamWorktrees teamName repoRoot (Some []) w
            = mergeAllWorkerBranches be listTeamWorktrees teamName repoRoot None w"
proof (intro conjI allI impI)
  fix out w1
  assume q: "git be [js ''rev-parse'', js ''--abbrev-ref'', js ''HEAD''] repoRoot w = (Inr out, w1)"
  with assms show run: "mergeAllWorkerBranches be listTeamWorktrees teamName repoRoot (Some []) w
              = mergeLoop be (js_trim out) repoRoot wts [] w1"
    by (simp add: mergeAllWorkerBranches_def resolveBase_def truthy_def bind_io_def return_io_def)
  obtain rs wfin where rs: "mergeEach be (js_trim out) repoRoot (map wt_branch wts) w1 = (Inr rs, wfin)"
    using mergeEach_total by blast
  show "\<exists>rs wfin. mergeEach be (js_trim out) repoRoot (map wt_branch wts) w1 = (Inr rs, wfin)
                  \<and> fst (mergeAllWorkerBranches be listTeamWorktrees teamName repoRoot (Some []) w)
                      = Inr (truncateAtFailure rs)"
    using rs by (simp add: run mergeLoop_truncate[OF rs])
next
  fix e w1
  assume "git be [js ''rev-parse'', js ''--abbrev-ref'', js ''HEAD''] repoRoot w = (Inl e, w1)"
  with assms show "mergeAllWorkerBranches be listTeamWorktrees teamName repoRoot (Some []) w = (Inl e, w1)"
    by (simp add: mergeAllWorkerBranches_def resolveBase_def truthy_def bind_io_def)
next
  have eq: "resolveBase be (Some []) repoRoot = resolveBase be None repoRoot"
    by (simp add: resolveBase_def truthy_def)
  show "mergeAllWorkerBranches be listTeamWorktrees teamName repoRoot (Some []) w
            = mergeAllWorkerBranches be listTeamWorktrees teamName repoRoot None w"
    unfolding mergeAllWorkerBranches_def eq by (rule refl)
qed

theorem mergeAllWorkerBranches_empty_baseBranch_witness:
  "demo_registry (js ''alpha'') (js ''/repo'') (repo (fresh []))
     = Inr [\<lparr>wt_path = js ''/wt/w1'', wt_branch = js ''team/w1'', wt_workerName = js ''w1''\<rparr>,
            \<lparr>wt_path = js ''/wt/w2'', wt_branch = js ''team/w2'', wt_workerName = js ''w2''\<rparr>,
            \<lparr>wt_path = js ''/wt/w3'', wt_branch = js ''team/w3'', wt_workerName = js ''w3''\<rparr>]
   \<and> git demo_git [js ''rev-parse'', js ''--abbrev-ref'', js ''HEAD''] (js ''/repo'') (fresh [])
     = (Inr (js ''main'' @ [NL]),
        \<lparr>repo = [], calls = [[js ''git'', js ''rev-parse'', js ''--abbrev-ref'', js ''HEAD'']]\<rparr>)
   \<and> js_trim (js ''main'' @ [NL]) = js ''main''
   \<and> mergeAllWorkerBranches demo_git demo_registry (js ''alpha'') (js ''/repo'') (Some []) (fresh [])
     = mergeLoop demo_git (js ''main'') (js ''/repo'')
         [\<lparr>wt_path = js ''/wt/w1'', wt_branch = js ''team/w1'', wt_workerName = js ''w1''\<rparr>,
          \<lparr>wt_path = js ''/wt/w2'', wt_branch = js ''team/w2'', wt_workerName = js ''w2''\<rparr>,
          \<lparr>wt_path = js ''/wt/w3'', wt_branch = js ''team/w3'', wt_workerName = js ''w3''\<rparr>] []
         \<lparr>repo = [], calls = [[js ''git'', js ''rev-parse'', js ''--abbrev-ref'', js ''HEAD'']]\<rparr>
   \<and> fst (mergeAllWorkerBranches demo_git demo_registry (js ''alpha'') (js ''/repo'') (Some []) (fresh []))
     = Inr [\<lparr>workerName = js ''w1'', branch = js ''team/w1'', success = True,
              conflicts = [], mergeCommit = Some (js ''c0ffee'')\<rparr>,
            \<lparr>workerName = js ''w2'', branch = js ''team/w2'', success = False,
              conflicts = [js ''README.md''], mergeCommit = None\<rparr>]
   \<and> take 1 (calls (snd (mergeAllWorkerBranches demo_git demo_registry (js ''alpha'') (js ''/repo'')
                              (Some []) (fresh []))))
     = [[js ''git'', js ''rev-parse'', js ''--abbrev-ref'', js ''HEAD'']]"
proof -
  let ?root = "js ''/repo''"
  let ?W1 = "\<lparr>repo = [], calls = [[js ''git'', js ''rev-parse'', js ''--abbrev-ref'', js ''HEAD'']]\<rparr>
               :: jsstring list world"
  let ?wts = "[\<lparr>wt_path = js ''/wt/w1'', wt_branch = js ''team/w1'', wt_workerName = js ''w1''\<rparr>,
          \<lparr>wt_path = js ''/wt/w2'', wt_branch = js ''team/w2'', wt_workerName = js ''w2''\<rparr>,
          \<lparr>wt_path = js ''/wt/w3'', wt_branch = js ''team/w3'', wt_workerName = js ''w3''\<rparr>]"
  have reg: "demo_registry (js ''alpha'') ?root (repo (fresh [])) = Inr ?wts"
    by (simp add: demo_registry_def)
  have ne: "?wts \<noteq> []" by simp
  have q: "git demo_git [js ''rev-parse'', js ''--abbrev-ref'', js ''HEAD''] ?root (fresh [])
     = (Inr (js ''main'' @ [NL]), ?W1)"
    by (simp add: execFileSync_def fresh_def) (simp add: js_def)
  have t: "js_trim (js ''main'' @ [NL]) = js ''main''"
    by (simp add: run_defs)
  from mergeAllWorkerBranches_empty_baseBranch[where be=demo_git and listTeamWorktrees=demo_registry
         and teamName="js ''alpha''" and repoRoot="?root" and w="fresh []", OF reg ne] q
  have run: "mergeAllWorkerBranches demo_git demo_registry (js ''alpha'') ?root (Some []) (fresh [])
     = mergeLoop demo_git (js_trim (js ''main'' @ [NL])) ?root ?wts [] ?W1"
    by blast
  have run': "mergeAllWorkerBranches demo_git demo_registry (js ''alpha'') ?root (Some []) (fresh [])
     = mergeLoop demo_git (js ''main'') ?root ?wts [] ?W1"
    using run unfolding t .
  have loop1: "fst (mergeLoop demo_git (js ''main'') ?root ?wts [] ?W1)
     = Inr [\<lparr>workerName = js ''w1'', branch = js ''team/w1'', success = True,
              conflicts = [], mergeCommit = Some (js ''c0ffee'')\<rparr>,
            \<lparr>workerName = js ''w2'', branch = js ''team/w2'', success = False,
              conflicts = [js ''README.md''], mergeCommit = None\<rparr>]"
    by (simp add: mergeWorkerBranch_def checkMergeConflicts_def run_defs)
  have loop2: "take 1 (calls (snd (mergeLoop demo_git (js ''main'') ?root ?wts [] ?W1)))
        = [[js ''git'', js ''rev-parse'', js ''--abbrev-ref'', js ''HEAD'']]"
    by (simp add: mergeWorkerBranch_def checkMergeConflicts_def run_defs)
  show ?thesis
    unfolding run' by (intro conjI reg q t loop1 loop2 refl)
qed

end
